theory Spec2Isabelle
  imports Complex_Main
begin

section \<open>The advertising-panel server (server/index.js)\<close>

text \<open>
  A shallow embedding of the Express server of the repository. Every route handler is a
  function from the process state (the store's tables, the gateway client held in
  \<open>razorpayInstance\<close>, the socket events emitted so far) and a request to a response
  and the new state. The libraries the server requires (jsonwebtoken, bcrypt, the
  HMAC of crypto) are parameters, collected in the record \<open>env\<close>; the two clocks
  (\<open>Date.now()\<close> of the process, \<open>NOW()\<close> of the database) and the draws of
  \<open>Math.random()\<close> are parameters of the handlers that read them.

  Scope of the model.
  \<^item> Request fields are JSON strings or absent (\<open>string option\<close>); a group id is a
    number or absent; the password of a login is any JSON value or absent
    (\<open>js_value option\<close>). Other JSON types of the other fields are not modelled.
  \<^item> A value of \<open>Math.random()\<close> is a rational; its contract \<open>0 \<le> r < 1\<close> is a
    hypothesis where it matters. Rounding of doubles is not modelled.
  \<^item> Timestamps are integers (milliseconds); the conversion of a \<open>Date\<close> to a
    DATETIME column is not modelled.
  \<^item> The store either answers every query of a request (\<open>store_up\<close>) or rejects the
    first one; a rejected query is what the handlers' \<open>catch\<close> turns into status 500.
  \<^item> A comparison in a \<open>WHERE\<close> clause is equality of the two values; the
    collation of the database is not modelled.
  \<^item> Requests are handled one at a time: no interleaving at the \<open>await\<close> points.
\<close>

subsection \<open>JavaScript helpers\<close>

text \<open>Truthiness of a string field: \<open>undefined\<close> and \<open>''\<close> are falsy.\<close>

definition truthy :: "string option \<Rightarrow> bool" where
  "truthy v = (case v of None \<Rightarrow> False | Some s \<Rightarrow> s \<noteq> [])"

text \<open>Truthiness of a numeric field: \<open>undefined\<close> and \<open>0\<close> are falsy.\<close>

definition truthy_num :: "nat option \<Rightarrow> bool" where
  "truthy_num v = (case v of None \<Rightarrow> False | Some n \<Rightarrow> n \<noteq> 0)"

text \<open>
  A JSON value, as \<open>express.json()\<close> parses it. \<open>JsObject\<close> stands for every
  object and array; all of them are truthy.
\<close>

datatype js_value = JsNull | JsBoolean bool | JsNumber int | JsString string | JsObject

fun truthy_value :: "js_value \<Rightarrow> bool" where
  "truthy_value JsNull = False"
| "truthy_value (JsBoolean b) = b"
| "truthy_value (JsNumber n) = (n \<noteq> 0)"
| "truthy_value (JsString s) = (s \<noteq> [])"
| "truthy_value JsObject = True"

text \<open>\<open>Number.prototype.toString\<close> on an integer: its decimal digits.\<close>

definition digit_chars :: string where
  "digit_chars = ''0123456789''"

fun nat_digits :: "nat \<Rightarrow> string" where
  "nat_digits n =
     (if n < 10 then [digit_chars ! n]
      else nat_digits (n div 10) @ [digit_chars ! (n mod 10)])"

declare nat_digits.simps [simp del]

definition toString :: "int \<Rightarrow> string" where
  "toString i = (if i < 0 then CHR ''-'' # nat_digits (nat (- i)) else nat_digits (nat i))"

text \<open>
  \<open>String.prototype.split\<close> with a one-character separator: the pieces between the
  separators, so the empty string gives one empty piece and two separators in a row
  give an empty piece between them.
\<close>

fun str_split :: "char \<Rightarrow> string \<Rightarrow> string list" where
  "str_split sep [] = [[]]"
| "str_split sep (c # cs) =
     (if c = sep then [] # str_split sep cs
      else (case str_split sep cs of
              [] \<Rightarrow> [[c]]
            | p # ps \<Rightarrow> (c # p) # ps))"

text \<open>\<open>xs[i]\<close>: \<open>undefined\<close> (here \<open>None\<close>) out of range.\<close>

fun at_index :: "'a list \<Rightarrow> nat \<Rightarrow> 'a option" where
  "at_index [] i = None"
| "at_index (x # xs) 0 = Some x"
| "at_index (x # xs) (Suc i) = at_index xs i"

subsection \<open>What the claims say of a link code\<close>

text \<open>The regular expression \<open>^[0-9]{4}$\<close> and the decimal value of a digit string.\<close>

definition is_digit :: "char \<Rightarrow> bool" where
  "is_digit c = (c \<in> set digit_chars)"

definition four_digits :: "string \<Rightarrow> bool" where
  "four_digits s = (length s = 4 \<and> list_all is_digit s)"

definition digit_value :: "char \<Rightarrow> nat" where
  "digit_value c = of_char c - 48"

definition decimal_value :: "string \<Rightarrow> nat" where
  "decimal_value s = foldl (\<lambda>acc c. 10 * acc + digit_value c) 0 s"

subsection \<open>The store\<close>

text \<open>
  The tables the server reads and writes, with the columns its queries name. The tables
  \<open>user_packages\<close> (the subscriptions) and \<open>payments\<close> are those of the schema in
  plan.md; no query of server/index.js names them.
\<close>

record user_row =
  u_id :: nat
  u_name :: string
  u_email :: string
  u_password_hash :: string

record media_row =
  m_user_id :: nat
  m_type :: string
  m_file_path :: string
  m_group_id :: "nat option"

record link_row =
  l_user_id :: nat
  l_link_code :: string
  l_group_id :: nat
  l_created_at :: int
  l_expires_at :: int

record payment_setting_row =
  razorpay_key_id :: string
  razorpay_key_secret :: string
  updated_at :: int

record user_package_row =
  up_user_id :: nat
  up_package_id :: nat
  up_start_date :: int
  up_end_date :: int
  up_active :: bool

record payment_row =
  p_user_id :: nat
  p_package_id :: nat
  p_amount :: int
  p_payment_type :: string
  p_status :: string
  p_created_at :: int

text \<open>The gateway client: \<open>new Razorpay({key_id, key_secret})\<close>.\<close>

record razorpay =
  key_id :: string
  key_secret :: string

text \<open>A socket.io emission: the room, the event and the \<open>groupId\<close> of its payload.\<close>

type_synonym emission = "string \<times> string \<times> nat option"

record world =
  users :: "user_row list"
  media :: "media_row list"
  links :: "link_row list"
  payment_settings :: "payment_setting_row list"
  user_packages :: "user_package_row list"
  payments :: "payment_row list"
  razorpayInstance :: "razorpay option"
  emitted :: "emission list"
  store_up :: bool

subsection \<open>Requests, responses and the libraries\<close>

text \<open>The payload of a token: \<open>{userId, email}\<close>, as \<open>/api/login\<close> signs it.\<close>

record claims =
  userId :: nat
  email :: string

text \<open>The descriptor multer gives for an uploaded file.\<close>

record uploaded_file =
  mimetype :: string
  filename :: string

record request =
  authorization :: "string option"
  user :: "claims option"
  body_email :: "string option"
  body_password :: "js_value option"
  body_groupId :: "nat option"
  files :: "uploaded_file list option"
  params_code :: string
  body_razorpay_key_id :: "string option"
  body_razorpay_key_secret :: "string option"
  body_razorpay_order_id :: "string option"
  body_razorpay_payment_id :: "string option"
  body_razorpay_signature :: "string option"

datatype json =
  JsonError string
| JsonMessage string
| JsonToken string
| JsonLink string
| JsonMedia "media_row list"
| JsonKeyId string

text \<open>A response: the status (\<open>res.json\<close> alone answers 200) and the body.\<close>

type_synonym response = "nat \<times> json"

text \<open>The errors \<open>jwt.verify\<close> hands to its callback.\<close>

datatype jwt_error = TokenExpiredError | JsonWebTokenError | NotBeforeError

text \<open>
  \<open>bcrypt.compare\<close> returns a promise: it resolves to a boolean, or it rejects
  (the library rejects data that is neither a string nor a buffer).
\<close>

datatype bcrypt_error = BcryptError

text \<open>
  The process environment and the libraries: \<open>jwt.verify(token, secret)\<close>,
  \<open>jwt.sign(payload, secret)\<close>, \<open>bcrypt.compare(password, hash)\<close> and
  \<open>createHmac('sha256', key).update(message).digest('hex')\<close>.
\<close>

record env =
  env_JWT_SECRET :: "string option"
  env_DOMAIN :: "string option"
  jwt_verify :: "string \<Rightarrow> string \<Rightarrow> jwt_error + claims"
  jwt_sign :: "claims \<Rightarrow> string \<Rightarrow> string"
  bcrypt_compare :: "js_value \<Rightarrow> string \<Rightarrow> bcrypt_error + bool"
  hmac_sha256_hex :: "string \<Rightarrow> string \<Rightarrow> string"

text \<open>\<open>v || d\<close> on a string that may be absent.\<close>

definition or_default :: "string option \<Rightarrow> string \<Rightarrow> string" where
  "or_default v d = (case v of None \<Rightarrow> d | Some s \<Rightarrow> if s = [] then d else s)"

definition JWT_SECRET :: "env \<Rightarrow> string" where
  "JWT_SECRET e = or_default (env_JWT_SECRET e) ''your_jwt_secret''"

definition internal_server_error :: response where
  "internal_server_error = (500, JsonError ''Internal server error'')"

subsection \<open>Utility functions\<close>

text \<open>
  \<open>generateUniqueLinkCode\<close>: a \<open>while (true)\<close> loop that draws a code and returns it
  when no row of \<open>links\<close> has it. \<open>random i\<close> is the draw of the \<open>i\<close>-th iteration.
  The result \<open>None\<close> is the loop that never returns; \<open>Some (Inl StoreError)\<close>
  is the rejected query, which the function does not catch.
\<close>

datatype rejection = StoreError

partial_function (option) generateUniqueLinkCode ::
  "world \<Rightarrow> (nat \<Rightarrow> rat) \<Rightarrow> nat \<Rightarrow> (rejection + string) option" where
  "generateUniqueLinkCode w random i =
     (let code = toString \<lfloor>1000 + random i * 9000\<rfloor> in
      if \<not> store_up w then Some (Inl StoreError)
      else let rows = filter (\<lambda>l. l_link_code l = code) (links w) in
        if length rows = 0 then Some (Inr code)
        else generateUniqueLinkCode w random (Suc i))"

text \<open>
  The same loop cut off after \<open>n\<close> probes: \<open>None\<close> when none of the first \<open>n\<close>
  iterations returns. It counts the iterations of the loop above.
\<close>

fun generateUniqueLinkCode_within ::
  "nat \<Rightarrow> world \<Rightarrow> (nat \<Rightarrow> rat) \<Rightarrow> nat \<Rightarrow> (rejection + string) option" where
  "generateUniqueLinkCode_within 0 w random i = None"
| "generateUniqueLinkCode_within (Suc n) w random i =
     (let code = toString \<lfloor>1000 + random i * 9000\<rfloor> in
      if \<not> store_up w then Some (Inl StoreError)
      else let rows = filter (\<lambda>l. l_link_code l = code) (links w) in
        if length rows = 0 then Some (Inr code)
        else generateUniqueLinkCode_within n w random (Suc i))"

text \<open>
  \<open>authenticateToken\<close>: a middleware. \<open>Inl\<close> is the response it sends itself,
  \<open>Inr\<close> the request it hands to \<open>next()\<close>, with \<open>req.user\<close> set.
\<close>

definition authenticateToken :: "env \<Rightarrow> request \<Rightarrow> response + request" where
  "authenticateToken e req =
     (let authHeader = authorization req in
      if \<not> truthy authHeader then Inl (401, JsonError ''No token provided'')
      else let token = at_index (str_split CHR '' '' (or_default authHeader [])) 1 in
        if \<not> truthy token then Inl (401, JsonError ''Malformed token'')
        else (case jwt_verify e (or_default token []) (JWT_SECRET e) of
                Inl err \<Rightarrow> Inl (403, JsonError ''Invalid token'')
              | Inr u \<Rightarrow> Inr (req\<lparr>user := Some u\<rparr>)))"

text \<open>
  \<open>loadRazorpayKeys\<close>: the row of \<open>payment_settings\<close> with the greatest
  \<open>updated_at\<close> (the earliest inserted among equals), or no client when the table is
  empty or the query is rejected. The constructor of the SDK throws when the key id is
  empty; that too ends in the \<open>catch\<close>, with no client.
\<close>

fun latest_setting :: "payment_setting_row list \<Rightarrow> payment_setting_row option" where
  "latest_setting [] = None"
| "latest_setting (r # rs) =
     (case latest_setting rs of
        None \<Rightarrow> Some r
      | Some r' \<Rightarrow> if updated_at r < updated_at r' then Some r' else Some r)"

definition loadRazorpayKeys :: "world \<Rightarrow> world" where
  "loadRazorpayKeys w =
     (if \<not> store_up w then w\<lparr>razorpayInstance := None\<rparr>
      else (case latest_setting (payment_settings w) of
              None \<Rightarrow> w\<lparr>razorpayInstance := None\<rparr>
            | Some row \<Rightarrow>
                if razorpay_key_id row = [] then w\<lparr>razorpayInstance := None\<rparr>
                else w\<lparr>razorpayInstance :=
                    Some \<lparr>key_id = razorpay_key_id row, key_secret = razorpay_key_secret row\<rparr>\<rparr>))"

text \<open>\<open>verifySuperAdmin\<close>: the second middleware of the admin routes.\<close>

definition verifySuperAdmin :: "request \<Rightarrow> response + request" where
  "verifySuperAdmin req =
     (case user req of
        None \<Rightarrow> Inl (403, JsonError ''Forbidden: Super admin only'')
      | Some u \<Rightarrow>
          if email u = ''admin@gnetworkservices.in'' then Inr req
          else Inl (403, JsonError ''Forbidden: Super admin only''))"

subsection \<open>Route handlers\<close>

text \<open>
  \<open>POST /api/login\<close>. A rejected \<open>bcrypt.compare\<close> throws at the
  \<open>await\<close>, inside the \<open>try\<close>: the \<open>catch\<close> answers 500.
\<close>

definition login :: "env \<Rightarrow> world \<Rightarrow> request \<Rightarrow> response" where
  "login e w req =
     (case (body_email req, body_password req) of
        (Some em, Some password) \<Rightarrow>
          if \<not> (truthy (Some em) \<and> truthy_value password)
          then (400, JsonError ''Email and password are required'')
          else if \<not> store_up w then internal_server_error
          else (case filter (\<lambda>u. u_email u = em) (users w) of
                  [] \<Rightarrow> (401, JsonError ''Invalid credentials'')
                | usr # _ \<Rightarrow>
                    (case bcrypt_compare e password (u_password_hash usr) of
                       Inl err \<Rightarrow> internal_server_error
                     | Inr match \<Rightarrow>
                         if \<not> match
                         then (401, JsonError ''Invalid credentials'')
                         else (200, JsonToken
                                 (jwt_sign e \<lparr>userId = u_id usr, email = em\<rparr> (JWT_SECRET e)))))
      | _ \<Rightarrow> (400, JsonError ''Email and password are required''))"

text \<open>
  \<open>POST /api/media/upload\<close>, after \<open>authenticateToken\<close> and multer: one row per
  file, then one \<open>mediaUpdated\<close> event to the room of the user. Reading
  \<open>req.user.userId\<close> of a request without \<open>user\<close> throws inside the \<open>try\<close>.
  The form field \<open>groupId\<close> is the number it denotes, absent when it is empty, so
  \<open>req.body.groupId || null\<close> is the field itself.
\<close>

definition media_upload_handler :: "world \<Rightarrow> request \<Rightarrow> response \<times> world" where
  "media_upload_handler w req =
     (case user req of
        None \<Rightarrow> (internal_server_error, w)
      | Some u \<Rightarrow>
          (case files req of
             None \<Rightarrow> ((400, JsonError ''No files uploaded''), w)
           | Some fs \<Rightarrow>
               if length fs = 0 then ((400, JsonError ''No files uploaded''), w)
               else if \<not> store_up w then (internal_server_error, w)
               else
                 let groupId = body_groupId req;
                     insertValues =
                       map (\<lambda>f. \<lparr>m_user_id = userId u,
                                 m_type = or_default (at_index (str_split CHR ''/'' (mimetype f)) 0) [],
                                 m_file_path = filename f,
                                 m_group_id = groupId\<rparr>) fs
                 in ((200, JsonMessage ''Files uploaded successfully''),
                     w\<lparr>media := media w @ insertValues,
                       emitted := emitted w @
                         [(''user_'' @ toString (int (userId u)), ''mediaUpdated'', groupId)]\<rparr>)))"

definition media_upload :: "env \<Rightarrow> world \<Rightarrow> request \<Rightarrow> response \<times> world" where
  "media_upload e w req =
     (case authenticateToken e req of
        Inl res \<Rightarrow> (res, w)
      | Inr req' \<Rightarrow> media_upload_handler w req')"

text \<open>
  \<open>POST /api/link/generate\<close>, after \<open>authenticateToken\<close>. \<open>now\<close> is
  \<open>Date.now()\<close>, \<open>db_now\<close> the \<open>NOW()\<close> of the INSERT. \<open>None\<close>: the handler
  never answers, because the allocation loop never returns.
\<close>

definition link_generate_handler ::
  "env \<Rightarrow> (nat \<Rightarrow> rat) \<Rightarrow> int \<Rightarrow> int \<Rightarrow> world \<Rightarrow> request \<Rightarrow> (response \<times> world) option" where
  "link_generate_handler e random now db_now w req =
     (case user req of
        None \<Rightarrow> Some (internal_server_error, w)
      | Some u \<Rightarrow>
          (case body_groupId req of
             None \<Rightarrow> Some ((400, JsonError ''Group ID is required''), w)
           | Some groupId \<Rightarrow>
               if \<not> truthy_num (Some groupId)
               then Some ((400, JsonError ''Group ID is required''), w)
               else (case generateUniqueLinkCode w random 0 of
                       None \<Rightarrow> None
                     | Some (Inl err) \<Rightarrow> Some (internal_server_error, w)
                     | Some (Inr code) \<Rightarrow>
                         let expiresAt = now + 30 * 24 * 60 * 60 * 1000 in
                         Some ((200, JsonLink
                                  (or_default (env_DOMAIN e) ''http://localhost:4000'' @ ''/'' @ code)),
                               w\<lparr>links := links w @
                                   [\<lparr>l_user_id = userId u, l_link_code = code,
                                     l_group_id = groupId, l_created_at = db_now,
                                     l_expires_at = expiresAt\<rparr>]\<rparr>))))"

definition link_generate ::
  "env \<Rightarrow> (nat \<Rightarrow> rat) \<Rightarrow> int \<Rightarrow> int \<Rightarrow> world \<Rightarrow> request \<Rightarrow> (response \<times> world) option" where
  "link_generate e random now db_now w req =
     (case authenticateToken e req of
        Inl res \<Rightarrow> Some (res, w)
      | Inr req' \<Rightarrow> link_generate_handler e random now db_now w req')"

text \<open>
  \<open>GET /api/link/:code/content\<close> (registered twice with the same body; the first
  registration answers). \<open>db_now\<close> is the \<open>NOW()\<close> of the query.
\<close>

definition link_content :: "int \<Rightarrow> world \<Rightarrow> request \<Rightarrow> response" where
  "link_content db_now w req =
     (if \<not> store_up w then internal_server_error
      else (case filter (\<lambda>l. l_link_code l = params_code req \<and> db_now < l_expires_at l) (links w) of
              [] \<Rightarrow> (404, JsonError ''Link not found or expired'')
            | link # _ \<Rightarrow>
                (200, JsonMedia
                   (filter (\<lambda>m. m_group_id m = Some (l_group_id link) \<and> m_user_id m = l_user_id link)
                      (media w)))))"

text \<open>\<open>GET\<close> and \<open>POST /api/admin/payment-settings\<close>.\<close>

definition get_payment_settings_handler :: "world \<Rightarrow> request \<Rightarrow> response \<times> world" where
  "get_payment_settings_handler w req =
     (if \<not> store_up w then (internal_server_error, w)
      else (case latest_setting (payment_settings w) of
              None \<Rightarrow> ((404, JsonError ''Payment settings not configured''), w)
            | Some row \<Rightarrow> ((200, JsonKeyId (razorpay_key_id row)), w)))"

definition get_payment_settings :: "env \<Rightarrow> world \<Rightarrow> request \<Rightarrow> response \<times> world" where
  "get_payment_settings e w req =
     (case authenticateToken e req of
        Inl res \<Rightarrow> (res, w)
      | Inr req' \<Rightarrow>
          (case verifySuperAdmin req' of
             Inl res \<Rightarrow> (res, w)
           | Inr req'' \<Rightarrow> get_payment_settings_handler w req''))"

definition update_payment_settings_handler :: "int \<Rightarrow> world \<Rightarrow> request \<Rightarrow> response \<times> world" where
  "update_payment_settings_handler db_now w req =
     (case (body_razorpay_key_id req, body_razorpay_key_secret req) of
        (Some kid, Some secret) \<Rightarrow>
          if \<not> (truthy (Some kid) \<and> truthy (Some secret))
          then ((400, JsonError ''Razorpay key ID and secret are required''), w)
          else if \<not> store_up w then (internal_server_error, w)
          else ((200, JsonMessage ''Payment settings updated''),
                loadRazorpayKeys
                  (w\<lparr>payment_settings := payment_settings w @
                      [\<lparr>razorpay_key_id = kid, razorpay_key_secret = secret,
                        updated_at = db_now\<rparr>]\<rparr>))
      | _ \<Rightarrow> ((400, JsonError ''Razorpay key ID and secret are required''), w))"

definition update_payment_settings :: "env \<Rightarrow> int \<Rightarrow> world \<Rightarrow> request \<Rightarrow> response \<times> world" where
  "update_payment_settings e db_now w req =
     (case authenticateToken e req of
        Inl res \<Rightarrow> (res, w)
      | Inr req' \<Rightarrow>
          (case verifySuperAdmin req' of
             Inl res \<Rightarrow> (res, w)
           | Inr req'' \<Rightarrow> update_payment_settings_handler db_now w req''))"

text \<open>
  \<open>POST /api/payment/verify\<close>. After the signature check the source has only the
  comment \<open>TODO: Update user package subscription status in DB\<close>.
\<close>

definition payment_verify_handler :: "env \<Rightarrow> world \<Rightarrow> request \<Rightarrow> response \<times> world" where
  "payment_verify_handler e w req =
     (case razorpayInstance w of
        None \<Rightarrow> ((500, JsonError ''Payment gateway not configured''), w)
      | Some rzp \<Rightarrow>
          (case (body_razorpay_order_id req, body_razorpay_payment_id req,
                 body_razorpay_signature req) of
             (Some order_id, Some payment_id, Some signature) \<Rightarrow>
               if \<not> (truthy (Some order_id) \<and> truthy (Some payment_id) \<and> truthy (Some signature))
               then ((400, JsonError ''Payment details are required''), w)
               else
                 let generated_signature =
                       hmac_sha256_hex e (key_secret rzp) (order_id @ ''|'' @ payment_id)
                 in if generated_signature \<noteq> signature
                    then ((400, JsonError ''Invalid payment signature''), w)
                    else ((200, JsonMessage ''Payment verified successfully''), w)
           | _ \<Rightarrow> ((400, JsonError ''Payment details are required''), w)))"

definition payment_verify :: "env \<Rightarrow> world \<Rightarrow> request \<Rightarrow> response \<times> world" where
  "payment_verify e w req =
     (case authenticateToken e req of
        Inl res \<Rightarrow> (res, w)
      | Inr req' \<Rightarrow> payment_verify_handler e w req')"

text \<open>
  \<open>POST /api/payment/offline\<close>: registered with \<open>authenticateToken\<close> alone; the
  body is a placeholder.
\<close>

definition payment_offline_handler :: "world \<Rightarrow> request \<Rightarrow> response \<times> world" where
  "payment_offline_handler w req =
     ((200, JsonMessage ''Offline payment recorded (placeholder)''), w)"

definition payment_offline :: "env \<Rightarrow> world \<Rightarrow> request \<Rightarrow> response \<times> world" where
  "payment_offline e w req =
     (case authenticateToken e req of
        Inl res \<Rightarrow> (res, w)
      | Inr req' \<Rightarrow> payment_offline_handler w req')"

subsection \<open>Notions the statements below use\<close>

text \<open>The code of one draw: line 62 of the source.\<close>

definition draw_code :: "rat \<Rightarrow> string" where
  "draw_code r = toString \<lfloor>1000 + r * 9000\<rfloor>"

text \<open>A code is taken when the SELECT of the allocation loop finds a row.\<close>

definition code_taken :: "world \<Rightarrow> string \<Rightarrow> bool" where
  "code_taken w c = (filter (\<lambda>l. l_link_code l = c) (links w) \<noteq> [])"

text \<open>The 9000 candidate codes, \<open>1000\<close> to \<open>9999\<close>.\<close>

definition candidate_codes :: "string list" where
  "candidate_codes = map (\<lambda>n. toString (int n)) [1000..<10000]"

subsection \<open>Example states and requests\<close>

text \<open>
  A small state: one customer, one link with code \<open>5500\<close>, one subscription that is
  not active, a configured gateway client.
\<close>

definition example_world :: world where
  "example_world =
     \<lparr>users = [\<lparr>u_id = 1, u_name = ''Alice'', u_email = ''alice@example.com'',
                u_password_hash = ''$2b$10$hash-of-pw123''\<rparr>],
      media = [\<lparr>m_user_id = 1, m_type = ''image'', m_file_path = ''1-a.png'',
                m_group_id = Some 7\<rparr>,
               \<lparr>m_user_id = 2, m_type = ''video'', m_file_path = ''2-b.mp4'',
                m_group_id = Some 7\<rparr>],
      links = [\<lparr>l_user_id = 1, l_link_code = ''5500'', l_group_id = 7,
                l_created_at = 0, l_expires_at = 2592000000\<rparr>],
      payment_settings = [\<lparr>razorpay_key_id = ''rzp_test_1'', razorpay_key_secret = ''s3cret'',
                           updated_at = 0\<rparr>],
      user_packages = [\<lparr>up_user_id = 1, up_package_id = 1, up_start_date = 0,
                        up_end_date = 0, up_active = False\<rparr>],
      payments = [],
      razorpayInstance = Some \<lparr>key_id = ''rzp_test_1'', key_secret = ''s3cret''\<rparr>,
      emitted = [],
      store_up = True\<rparr>"

text \<open>The same state with a row of \<open>links\<close>, long expired, for each candidate code.\<close>

definition saturated_world :: world where
  "saturated_world =
     example_world\<lparr>links :=
       map (\<lambda>n. \<lparr>l_user_id = 1, l_link_code = toString (int n), l_group_id = 7,
                  l_created_at = 0, l_expires_at = 1\<rparr>) [1000..<10000]\<rparr>"

text \<open>Draws: \<open>0.5\<close> first (code \<open>5500\<close>), \<open>0.25\<close> afterwards (code \<open>3250\<close>).\<close>

definition example_random :: "nat \<Rightarrow> rat" where
  "example_random i = (if i = 0 then 1 / 2 else 1 / 4)"

text \<open>
  Stand-ins for the libraries in the examples: a token table for \<open>jwt.verify\<close>, a
  hash that holds the password in clear and a comparison that rejects a password that
  is not a string, a keyed tag that holds its inputs in clear.
  They are not the real algorithms; every theorem below is stated for an arbitrary
  \<open>env\<close>, and only the concrete examples use this one.
\<close>

definition example_jwt_verify :: "string \<Rightarrow> string \<Rightarrow> jwt_error + claims" where
  "example_jwt_verify token secret =
     (if secret \<noteq> ''jwt-secret'' then Inl JsonWebTokenError
      else if token = ''alice.jwt'' then Inr \<lparr>userId = 1, email = ''alice@example.com''\<rparr>
      else if token = ''admin.jwt'' then Inr \<lparr>userId = 9, email = ''admin@gnetworkservices.in''\<rparr>
      else if token = ''old.jwt'' then Inl TokenExpiredError
      else Inl JsonWebTokenError)"

definition example_env :: env where
  "example_env =
     \<lparr>env_JWT_SECRET = Some ''jwt-secret'',
      env_DOMAIN = None,
      jwt_verify = example_jwt_verify,
      jwt_sign = (\<lambda>payload secret. ''jwt:'' @ email payload),
      bcrypt_compare =
        (\<lambda>password hash.
           case password of
             JsString p \<Rightarrow> Inr (hash = ''$2b$10$hash-of-'' @ p)
           | _ \<Rightarrow> Inl BcryptError),
      hmac_sha256_hex = (\<lambda>key message. ''hmac:'' @ key @ '':'' @ message)\<rparr>"

text \<open>A request of the customer Alice with an empty body.\<close>

definition example_request :: request where
  "example_request =
     \<lparr>authorization = Some ''Bearer alice.jwt'',
      user = None,
      body_email = None,
      body_password = None,
      body_groupId = None,
      files = None,
      params_code = [],
      body_razorpay_key_id = None,
      body_razorpay_key_secret = None,
      body_razorpay_order_id = None,
      body_razorpay_payment_id = None,
      body_razorpay_signature = None\<rparr>"

section \<open>Properties\<close>

subsection \<open>Decimal digits\<close>

lemma digit_chars_table:
  "list_all (\<lambda>k. is_digit (digit_chars ! k) \<and> digit_value (digit_chars ! k) = k) [0..<10]"
  by code_simp

lemma digit_chars_nth:
  assumes "k < 10"
  shows "is_digit (digit_chars ! k)" and "digit_value (digit_chars ! k) = k"
proof -
  from assms have "k \<in> set [0..<10]" by simp
  with digit_chars_table show "is_digit (digit_chars ! k)" and "digit_value (digit_chars ! k) = k"
    unfolding list_all_iff by blast+
qed

lemma nat_digits_small: "n < 10 \<Longrightarrow> nat_digits n = [digit_chars ! n]"
  by (subst nat_digits.simps) simp

lemma nat_digits_step:
  "10 \<le> n \<Longrightarrow> nat_digits n = nat_digits (n div 10) @ [digit_chars ! (n mod 10)]"
  by (subst nat_digits.simps) simp

lemma nat_digits_four:
  assumes "1000 \<le> m" and "m < 10000"
  shows "nat_digits m =
    [digit_chars ! (m div 10 div 10 div 10), digit_chars ! (m div 10 div 10 mod 10),
     digit_chars ! (m div 10 mod 10), digit_chars ! (m mod 10)]"
proof -
  have a: "10 \<le> m" using assms by simp
  have b: "10 \<le> m div 10" using assms by (simp add: less_eq_div_iff_mult_less_eq)
  have c: "10 \<le> m div 10 div 10" using assms by (simp add: less_eq_div_iff_mult_less_eq)
  have d: "m div 10 div 10 div 10 < 10" using assms by (simp add: div_less_iff_less_mult)
  show ?thesis
    by (simp add: nat_digits_step[OF a] nat_digits_step[OF b] nat_digits_step[OF c]
        nat_digits_small[OF d])
qed

lemma toString_four:
  assumes "1000 \<le> n" and "n \<le> 9999"
  shows "four_digits (toString n)" and "int (decimal_value (toString n)) = n"
proof -
  define m where "m = nat n"
  have m: "1000 \<le> m" "m < 10000" and n: "n = int m" using assms by (auto simp: m_def)
  have ts: "toString n = nat_digits m" using assms by (simp add: toString_def m_def)
  have d: "m div 10 div 10 div 10 < 10" using m by (simp add: div_less_iff_less_mult)
  have lt: "m div 10 div 10 mod 10 < 10" "m div 10 mod 10 < 10" "m mod 10 < 10"
    by simp_all
  show "four_digits (toString n)"
    unfolding ts nat_digits_four[OF m] four_digits_def
    using d lt by (simp add: digit_chars_nth)
  have "decimal_value (nat_digits m) =
     10 * (10 * (10 * (m div 10 div 10 div 10) + m div 10 div 10 mod 10) + m div 10 mod 10) + m mod 10"
    unfolding nat_digits_four[OF m] decimal_value_def
    using d lt by (simp add: digit_chars_nth)
  also have "\<dots> = m" by simp
  finally show "int (decimal_value (toString n)) = n" unfolding ts by (simp add: n)
qed

subsection \<open>The allocation loop\<close>

lemma generateUniqueLinkCode_unfold:
  "generateUniqueLinkCode w random i =
     (if \<not> store_up w then Some (Inl StoreError)
      else if \<not> code_taken w (draw_code (random i))
           then Some (Inr (draw_code (random i)))
           else generateUniqueLinkCode w random (Suc i))"
  by (subst generateUniqueLinkCode.simps) (simp add: Let_def draw_code_def code_taken_def)

lemma generateUniqueLinkCode_skip:
  assumes "store_up w" and "\<forall>j<k. code_taken w (draw_code (random (i + j)))"
  shows "generateUniqueLinkCode w random i = generateUniqueLinkCode w random (i + k)"
  using assms(2)
proof (induction k)
  case 0
  show ?case by simp
next
  case (Suc k)
  then have "generateUniqueLinkCode w random i = generateUniqueLinkCode w random (i + k)"
    by simp
  also have "\<dots> = generateUniqueLinkCode w random (Suc (i + k))"
    using Suc.prems assms(1) by (subst generateUniqueLinkCode_unfold) simp
  finally show ?case by simp
qed

lemma generateUniqueLinkCode_within_None:
  assumes "store_up w" and "\<forall>j<n. code_taken w (draw_code (random (i + j)))"
  shows "generateUniqueLinkCode_within n w random i = None"
  using assms(2)
proof (induction n arbitrary: i)
  case 0
  show ?case by simp
next
  case (Suc n)
  from Suc.prems have here: "code_taken w (draw_code (random i))" by force
  have "\<forall>j<n. code_taken w (draw_code (random (Suc i + j)))"
    using Suc.prems by (metis Suc_less_eq add_Suc_shift)
  from Suc.IH[OF this] here assms(1) show ?case
    by (simp add: Let_def draw_code_def code_taken_def)
qed

lemma draw_code_of_candidate:
  "draw_code ((of_int a - 1000) / 9000) = toString a"
proof -
  have "x / 9000 * 9000 = x" for x :: rat by simp
  then have "(of_int a - 1000) / 9000 * 9000 = (of_int a - 1000 :: rat)" .
  then have "1000 + (of_int a - 1000) / 9000 * 9000 = (of_int a :: rat)" by (simp only:)
  then show ?thesis unfolding draw_code_def by (simp only: floor_of_int)
qed

lemma candidate_draw_in_range:
  fixes a :: int
  assumes "1000 \<le> a" and "a \<le> 9999"
  shows "(0::rat) \<le> (of_int a - 1000) / 9000" and "(of_int a - 1000) / 9000 < (1::rat)"
proof -
  have "(1000::rat) \<le> of_int a" using assms(1) by (metis of_int_le_iff of_int_numeral)
  then show "(0::rat) \<le> (of_int a - 1000) / 9000" by simp
  have "of_int a \<le> (9999::rat)" using assms(2) by (metis of_int_le_iff of_int_numeral)
  then show "(of_int a - 1000) / 9000 < (1::rat)" by simp
qed

lemma set_candidate_codes:
  "set candidate_codes = (\<lambda>n. toString (int n)) ` {1000..<10000}"
  unfolding candidate_codes_def by (simp only: set_map set_upt)

lemma draw_code_candidate:
  assumes "0 \<le> r" and "r < 1"
  shows "draw_code r \<in> set candidate_codes"
proof -
  define n where "n = \<lfloor>1000 + r * 9000\<rfloor>"
  have lo: "(1000::rat) \<le> 1000 + r * 9000" using assms by simp
  have hi: "1000 + r * 9000 < 10000" using assms by simp
  have "1000 \<le> n" unfolding n_def using lo by (simp only: le_floor_iff of_int_numeral)
  moreover have "n < 10000" unfolding n_def using hi by (simp only: floor_less_iff of_int_numeral)
  ultimately have "nat n \<in> {1000..<10000}" and "int (nat n) = n" by auto
  then have "toString n \<in> (\<lambda>n. toString (int n)) ` {1000..<10000}"
    by (metis image_eqI)
  then show ?thesis by (simp only: draw_code_def n_def set_candidate_codes)
qed

lemma draw_code_four:
  assumes "0 \<le> r" and "r < 1"
  shows "four_digits (draw_code r)"
    and "1000 \<le> decimal_value (draw_code r)" and "decimal_value (draw_code r) \<le> 9999"
proof -
  define n where "n = \<lfloor>1000 + r * 9000\<rfloor>"
  have lo: "(1000::rat) \<le> 1000 + r * 9000" using assms by simp
  have hi: "1000 + r * 9000 < 10000" using assms by simp
  have n1: "1000 \<le> n" unfolding n_def using lo by (simp only: le_floor_iff of_int_numeral)
  have "n < 10000" unfolding n_def using hi by (simp only: floor_less_iff of_int_numeral)
  then have n2: "n \<le> 9999" by simp
  have dc: "draw_code r = toString n" by (simp only: draw_code_def n_def)
  show "four_digits (draw_code r)" unfolding dc by (rule toString_four[OF n1 n2])
  have "int (decimal_value (draw_code r)) = n" unfolding dc by (rule toString_four[OF n1 n2])
  with n1 n2 show "1000 \<le> decimal_value (draw_code r)" and "decimal_value (draw_code r) \<le> 9999"
    by linarith+
qed

lemma never_returns_aux:
  assumes ret: "generateUniqueLinkCode w random i = Some y"
  shows "\<not> (store_up w \<and> (\<forall>j. filter (\<lambda>l. l_link_code l = draw_code (random j)) (links w) \<noteq> []))"
proof (rule generateUniqueLinkCode.raw_induct
    [where P = "\<lambda>w random i y. \<not> (store_up w \<and>
        (\<forall>j. filter (\<lambda>l. l_link_code l = draw_code (random j)) (links w) \<noteq> []))", OF _ ret])
  fix gen :: "world \<Rightarrow> (nat \<Rightarrow> rat) \<Rightarrow> nat \<Rightarrow> (rejection + string) option"
  fix w random i y
  assume IH: "\<And>w random i y. gen w random i = Some y \<Longrightarrow> \<not> (store_up w \<and>
        (\<forall>j. filter (\<lambda>l. l_link_code l = draw_code (random j)) (links w) \<noteq> []))"
  assume "(let code = toString \<lfloor>1000 + random i * 9000\<rfloor> in
      if \<not> store_up w then Some (Inl StoreError)
      else let rows = filter (\<lambda>l. l_link_code l = code) (links w) in
        if length rows = 0 then Some (Inr code)
        else gen w random (Suc i)) = Some y"
  note body = this[unfolded Let_def, folded draw_code_def]
  show "\<not> (store_up w \<and> (\<forall>j. filter (\<lambda>l. l_link_code l = draw_code (random j)) (links w) \<noteq> []))"
  proof
    assume "store_up w \<and> (\<forall>j. filter (\<lambda>l. l_link_code l = draw_code (random j)) (links w) \<noteq> [])"
    then have up: "store_up w"
      and taken: "\<forall>j. filter (\<lambda>l. l_link_code l = draw_code (random j)) (links w) \<noteq> []"
      by blast+
    from taken have "filter (\<lambda>l. l_link_code l = draw_code (random i)) (links w) \<noteq> []" by blast
    with up body have "gen w random (Suc i) = Some y" by (simp split: if_splits)
    from IH[OF this] up taken show False by blast
  qed
qed

lemma generate_returns_a_free_draw:
  assumes ret: "generateUniqueLinkCode w random i = Some y"
  shows "\<forall>code. y = Inr code \<longrightarrow>
       (\<exists>j\<ge>i. code = draw_code (random j) \<and>
           filter (\<lambda>l. l_link_code l = code) (links w) = [])"
proof (rule generateUniqueLinkCode.raw_induct
    [where P = "\<lambda>w random i y. \<forall>code. y = Inr code \<longrightarrow>
       (\<exists>j\<ge>i. code = draw_code (random j) \<and>
           filter (\<lambda>l. l_link_code l = code) (links w) = [])", OF _ ret])
  fix gen :: "world \<Rightarrow> (nat \<Rightarrow> rat) \<Rightarrow> nat \<Rightarrow> (rejection + string) option"
  fix w random i y
  assume IH: "\<And>w random i y. gen w random i = Some y \<Longrightarrow> \<forall>code. y = Inr code \<longrightarrow>
       (\<exists>j\<ge>i. code = draw_code (random j) \<and>
           filter (\<lambda>l. l_link_code l = code) (links w) = [])"
  assume "(let code = toString \<lfloor>1000 + random i * 9000\<rfloor> in
      if \<not> store_up w then Some (Inl StoreError)
      else let rows = filter (\<lambda>l. l_link_code l = code) (links w) in
        if length rows = 0 then Some (Inr code)
        else gen w random (Suc i)) = Some y"
  note body = this[unfolded Let_def, folded draw_code_def]
  show "\<forall>code. y = Inr code \<longrightarrow>
       (\<exists>j\<ge>i. code = draw_code (random j) \<and>
           filter (\<lambda>l. l_link_code l = code) (links w) = [])"
  proof (intro allI impI)
    fix code assume y: "y = Inr code"
    show "\<exists>j\<ge>i. code = draw_code (random j) \<and>
           filter (\<lambda>l. l_link_code l = code) (links w) = []"
    proof (cases "filter (\<lambda>l. l_link_code l = draw_code (random i)) (links w) = []")
      case True
      with y body have "code = draw_code (random i)"
        by (simp split: if_splits)
      with True show ?thesis by blast
    next
      case False
      with y body have "gen w random (Suc i) = Some (Inr code)"
        by (simp split: if_splits)
      from IH[OF this] obtain j where "j \<ge> Suc i"
        "code = draw_code (random j)"
        "filter (\<lambda>l. l_link_code l = code) (links w) = []" by blast
      then show ?thesis using Suc_leD by blast
    qed
  qed
qed

lemma generateUniqueLinkCode_within_sound:
  "generateUniqueLinkCode_within n w random i = Some y \<Longrightarrow>
     generateUniqueLinkCode w random i = Some y"
proof (induction n arbitrary: i)
  case 0
  then show ?case by simp
next
  case (Suc n)
  show ?case
  proof (cases "store_up w \<and> code_taken w (draw_code (random i))")
    case True
    with Suc.prems have "generateUniqueLinkCode_within n w random (Suc i) = Some y"
      by (simp add: Let_def draw_code_def code_taken_def)
    from Suc.IH[OF this] True show ?thesis
      by (subst generateUniqueLinkCode_unfold) simp
  next
    case False
    with Suc.prems show ?thesis
      by (subst generateUniqueLinkCode_unfold)
         (auto simp: Let_def draw_code_def code_taken_def split: if_splits)
  qed
qed

lemma generateUniqueLinkCode_returns:
  assumes "store_up w" and "i \<le> k" and "\<not> code_taken w (draw_code (random k))"
  shows "\<exists>code. generateUniqueLinkCode w random i = Some (Inr code)"
proof -
  define j where "j = (LEAST j. i \<le> j \<and> \<not> code_taken w (draw_code (random j)))"
  have j: "i \<le> j \<and> \<not> code_taken w (draw_code (random j))"
    unfolding j_def using assms(2,3) by (rule LeastI[of _ k, OF conjI])
  have before: "\<forall>m<j - i. code_taken w (draw_code (random (i + m)))"
  proof (intro allI impI)
    fix m assume "m < j - i"
    then have "i + m < j" by simp
    then have "\<not> (i \<le> i + m \<and> \<not> code_taken w (draw_code (random (i + m))))"
      unfolding j_def by (rule not_less_Least)
    then show "code_taken w (draw_code (random (i + m)))" by simp
  qed
  have "generateUniqueLinkCode w random i = generateUniqueLinkCode w random (i + (j - i))"
    by (rule generateUniqueLinkCode_skip[OF assms(1) before])
  also have "\<dots> = generateUniqueLinkCode w random j" using j by simp
  also have "\<dots> = Some (Inr (draw_code (random j)))"
    using j assms(1) by (subst generateUniqueLinkCode_unfold) simp
  finally show ?thesis by blast
qed

text \<open>
  Claim C2. Every code the allocator returns is a 4-digit decimal string (it matches
  \<open>^[0-9]{4}$\<close>) whose value lies in 1000..9999, and no row of \<open>links\<close> that
  is not expired at the moment \<open>now\<close> of the call has it. The draws are those of
  \<open>Math.random()\<close>, in \<open>[0, 1)\<close>. The loop looks at every row, expired or not, so
  the code is in fact new among all rows.
\<close>

theorem generateUniqueLinkCode_code:
  assumes "\<forall>j. 0 \<le> random j \<and> random j < 1"
    and "generateUniqueLinkCode w random i = Some (Inr code)"
  shows "four_digits code \<and> 1000 \<le> decimal_value code \<and> decimal_value code \<le> 9999
         \<and> filter (\<lambda>l. l_link_code l = code \<and> now < l_expires_at l) (links w) = []"
proof -
  from generate_returns_a_free_draw[OF assms(2)] obtain j
    where code: "code = draw_code (random j)"
      and free: "filter (\<lambda>l. l_link_code l = code) (links w) = []" by blast
  from assms(1) have r: "0 \<le> random j" "random j < 1" by simp_all
  from free have "filter (\<lambda>l. l_link_code l = code \<and> now < l_expires_at l) (links w) = []"
    by (simp add: filter_empty_conv)
  with draw_code_four[OF r] show ?thesis unfolding code by blast
qed

lemma example_draws:
  "draw_code (example_random 0) = ''5500''" "draw_code (example_random (Suc 0)) = ''3250''"
  by (simp_all add: draw_code_def example_random_def toString_def nat_digits.simps digit_chars_def)

lemma example_world_codes:
  "store_up example_world" "code_taken example_world ''5500''"
  "\<not> code_taken example_world ''3250''"
  by (simp_all add: code_taken_def example_world_def)

lemma example_run:
  "generateUniqueLinkCode example_world example_random 0 = Some (Inr ''3250'')"
  by (subst generateUniqueLinkCode_unfold, simp only: example_draws example_world_codes,
      subst generateUniqueLinkCode_unfold, simp only: example_draws example_world_codes) simp

lemma example_random_range: "\<forall>j. 0 \<le> example_random j \<and> example_random j < 1"
  by (simp add: example_random_def)

theorem generateUniqueLinkCode_code_witness:
  "(\<forall>j. 0 \<le> example_random j \<and> example_random j < 1)
   \<and> generateUniqueLinkCode example_world example_random 0 = Some (Inr ''3250'')
   \<and> four_digits ''3250'' \<and> 1000 \<le> decimal_value ''3250'' \<and> decimal_value ''3250'' \<le> 9999
   \<and> filter (\<lambda>l. l_link_code l = ''3250'' \<and> 0 < l_expires_at l) (links example_world) = []"
  using generateUniqueLinkCode_code[OF example_random_range example_run, of 0]
    example_random_range example_run by blast

text \<open>
  Claim C3. The loop has no cap on its attempts. When the store answers and every one of
  the 9000 candidate codes is taken, \<open>generateUniqueLinkCode\<close> never returns: its
  value is \<open>None\<close>, neither a code nor a reported error. When some candidate \<open>a\<close>
  is taken and some candidate \<open>b\<close> is free, then for every bound \<open>N\<close> there are draws
  for which the loop has not returned after \<open>N\<close> probes and still returns \<open>b\<close> in
  the end: the number of probes before success has no bound.
\<close>

theorem generateUniqueLinkCode_unbounded:
  "(store_up w \<and> (\<forall>j. 0 \<le> random j \<and> random j < 1) \<and> list_all (code_taken w) candidate_codes
      \<longrightarrow> generateUniqueLinkCode w random i = None)
   \<and> (store_up w \<and> 1000 \<le> a \<and> a \<le> 9999 \<and> code_taken w (toString a)
        \<and> 1000 \<le> b \<and> b \<le> 9999 \<and> \<not> code_taken w (toString b)
      \<longrightarrow> (\<forall>N. \<exists>random. (\<forall>j. 0 \<le> random j \<and> random j < 1)
             \<and> generateUniqueLinkCode_within N w random 0 = None
             \<and> generateUniqueLinkCode w random 0 = Some (Inr (toString b))))"
proof (intro conjI impI allI)
  assume h: "store_up w \<and> (\<forall>j. 0 \<le> random j \<and> random j < 1) \<and> list_all (code_taken w) candidate_codes"
  then have up: "store_up w" and rng: "\<And>j. 0 \<le> random j \<and> random j < 1"
    and all: "list_all (code_taken w) candidate_codes" by blast+
  have taken: "\<forall>j. code_taken w (draw_code (random j))"
  proof
    fix j
    from rng[of j] have "draw_code (random j) \<in> set candidate_codes"
      by (simp add: draw_code_candidate)
    with all show "code_taken w (draw_code (random j))" by (simp add: list_all_iff)
  qed
  show "generateUniqueLinkCode w random i = None"
  proof (cases "generateUniqueLinkCode w random i")
    case None
    then show ?thesis .
  next
    case (Some y)
    from never_returns_aux[OF Some] up taken show ?thesis
      by (simp add: code_taken_def)
  qed
next
  fix N
  assume h: "store_up w \<and> 1000 \<le> a \<and> a \<le> 9999 \<and> code_taken w (toString a)
        \<and> 1000 \<le> b \<and> b \<le> 9999 \<and> \<not> code_taken w (toString b)"
  define random :: "nat \<Rightarrow> rat" where
    "random j = (if j < N then (of_int a - 1000) / 9000 else (of_int b - 1000) / 9000)" for j
  have rng: "\<forall>j. 0 \<le> random j \<and> random j < 1"
    using h by (simp add: random_def candidate_draw_in_range)
  have first: "\<forall>j<N. code_taken w (draw_code (random (0 + j)))"
    using h by (simp add: random_def draw_code_of_candidate)
  have "generateUniqueLinkCode w random 0 = generateUniqueLinkCode w random (0 + N)"
    using h first by (intro generateUniqueLinkCode_skip) blast+
  also have "\<dots> = Some (Inr (toString b))"
    using h by (subst generateUniqueLinkCode_unfold) (simp add: random_def draw_code_of_candidate)
  finally have ret: "generateUniqueLinkCode w random 0 = Some (Inr (toString b))" .
  have "generateUniqueLinkCode_within N w random 0 = None"
    using h first by (intro generateUniqueLinkCode_within_None) blast+
  with rng ret show "\<exists>random. (\<forall>j. 0 \<le> random j \<and> random j < 1)
             \<and> generateUniqueLinkCode_within N w random 0 = None
             \<and> generateUniqueLinkCode w random 0 = Some (Inr (toString b))"
    by blast
qed

lemma links_saturated_world:
  "links saturated_world =
     map (\<lambda>n. \<lparr>l_user_id = 1, l_link_code = toString (int n), l_group_id = 7,
                l_created_at = 0, l_expires_at = 1\<rparr>) [1000..<10000]"
proof -
  have "links (w\<lparr>links := xs\<rparr>) = xs" for w :: world and xs by simp
  then show ?thesis unfolding saturated_world_def .
qed

lemma store_up_saturated_world: "store_up saturated_world"
proof -
  have "store_up (w\<lparr>links := xs\<rparr>) = store_up w" for w :: world and xs by simp
  then have "store_up saturated_world = store_up example_world"
    unfolding saturated_world_def .
  then show ?thesis by (simp only: example_world_codes)
qed

lemma saturated_world_all_taken: "list_all (code_taken saturated_world) candidate_codes"
proof -
  have "code_taken saturated_world c" if "c \<in> set candidate_codes" for c
  proof -
    from that obtain n where n: "n \<in> {1000..<10000}" and c: "c = toString (int n)"
      unfolding set_candidate_codes by blast
    let ?row = "\<lparr>l_user_id = 1, l_link_code = toString (int n), l_group_id = 7,
                  l_created_at = 0, l_expires_at = 1\<rparr>"
    from n have "?row \<in> set (links saturated_world)"
      unfolding links_saturated_world by (simp only: set_map set_upt) (rule imageI)
    moreover have "l_link_code ?row = c" by (simp add: c)
    ultimately have "\<exists>l \<in> set (links saturated_world). l_link_code l = c" by blast
    then show ?thesis unfolding code_taken_def by (simp only: filter_empty_conv) blast
  qed
  then show ?thesis by (simp only: list_all_iff) blast
qed

lemma toString_examples: "toString 5500 = ''5500''" "toString 3250 = ''3250''"
  by (simp_all add: toString_def nat_digits.simps digit_chars_def)

theorem generateUniqueLinkCode_unbounded_witness:
  "store_up saturated_world \<and> list_all (code_taken saturated_world) candidate_codes
   \<and> generateUniqueLinkCode saturated_world example_random 0 = None
   \<and> code_taken example_world ''5500'' \<and> \<not> code_taken example_world ''3250''
   \<and> (\<exists>random. (\<forall>j. 0 \<le> random j \<and> random j < 1)
         \<and> generateUniqueLinkCode_within 3 example_world random 0 = None
         \<and> generateUniqueLinkCode example_world random 0 = Some (Inr ''3250''))"
proof -
  have "generateUniqueLinkCode saturated_world example_random 0 = None"
    using generateUniqueLinkCode_unbounded[of saturated_world example_random 0]
      store_up_saturated_world saturated_world_all_taken example_random_range by blast
  moreover have "\<exists>random. (\<forall>j. 0 \<le> random j \<and> random j < 1)
         \<and> generateUniqueLinkCode_within 3 example_world random 0 = None
         \<and> generateUniqueLinkCode example_world random 0 = Some (Inr ''3250'')"
    using generateUniqueLinkCode_unbounded[of example_world _ _ 5500 3250]
      example_world_codes by (simp add: toString_examples)
  ultimately show ?thesis
    using store_up_saturated_world saturated_world_all_taken example_world_codes by blast
qed

subsection \<open>The bearer gate\<close>

lemma str_split_first:
  "\<exists>ps. str_split sep s = takeWhile (\<lambda>c. c \<noteq> sep) s # ps"
  by (induction s) auto

lemma str_split_no_sep: "sep \<notin> set s \<Longrightarrow> str_split sep s = [s]"
  by (induction s) auto

lemma str_split_at_sep:
  "sep \<notin> set p \<Longrightarrow> str_split sep (p @ sep # rest) = p # str_split sep rest"
  by (induction p) auto

lemma second_piece_none:
  "sep \<notin> set s \<Longrightarrow> at_index (str_split sep s) (Suc 0) = None"
  by (simp add: str_split_no_sep)

lemma second_piece:
  assumes "sep \<notin> set p"
  shows "at_index (str_split sep (p @ sep # rest)) (Suc 0) = Some (takeWhile (\<lambda>c. c \<noteq> sep) rest)"
proof -
  obtain ps where "str_split sep rest = takeWhile (\<lambda>c. c \<noteq> sep) rest # ps"
    using str_split_first by blast
  then show ?thesis using assms by (simp add: str_split_at_sep)
qed

text \<open>
  Claim C5, as amended. \<open>authenticateToken\<close> answers 401 when the
  \<open>Authorization\<close> header is absent or empty (\<open>No token provided\<close>) and when
  there is no text between its first space and the next (\<open>Malformed token\<close>). A
  token that \<open>jwt.verify\<close> rejects, whatever the error (expired, bad signature,
  not a JWT), is answered 403 \<open>Invalid token\<close>, not 401. A token it accepts puts
  the decoded claims in \<open>req.user\<close> and hands the request on.
\<close>

theorem authenticateToken_outcomes:
  "(\<not> truthy (authorization req) \<longrightarrow>
      authenticateToken e req = Inl (401, JsonError ''No token provided''))
   \<and> (authorization req = Some h \<and> h \<noteq> [] \<and> CHR '' '' \<notin> set h \<longrightarrow>
      authenticateToken e req = Inl (401, JsonError ''Malformed token''))
   \<and> (authorization req = Some (scheme @ CHR '' '' # rest) \<and> CHR '' '' \<notin> set scheme
        \<and> token = takeWhile (\<lambda>c. c \<noteq> CHR '' '') rest \<longrightarrow>
        (token = [] \<longrightarrow> authenticateToken e req = Inl (401, JsonError ''Malformed token''))
      \<and> (token \<noteq> [] \<longrightarrow>
          (\<forall>err. jwt_verify e token (JWT_SECRET e) = Inl err \<longrightarrow>
             authenticateToken e req = Inl (403, JsonError ''Invalid token''))
        \<and> (\<forall>u. jwt_verify e token (JWT_SECRET e) = Inr u \<longrightarrow>
             authenticateToken e req = Inr (req\<lparr>user := Some u\<rparr>))))"
proof (intro conjI impI allI)
  assume "\<not> truthy (authorization req)"
  then show "authenticateToken e req = Inl (401, JsonError ''No token provided'')"
    by (simp add: authenticateToken_def)
next
  assume "authorization req = Some h \<and> h \<noteq> [] \<and> CHR '' '' \<notin> set h"
  then show "authenticateToken e req = Inl (401, JsonError ''Malformed token'')"
    by (simp add: authenticateToken_def truthy_def or_default_def second_piece_none)
next
  assume h: "authorization req = Some (scheme @ CHR '' '' # rest) \<and> CHR '' '' \<notin> set scheme
        \<and> token = takeWhile (\<lambda>c. c \<noteq> CHR '' '') rest" and t: "token = []"
  then show "authenticateToken e req = Inl (401, JsonError ''Malformed token'')"
    by (simp add: authenticateToken_def truthy_def or_default_def second_piece)
next
  fix err
  assume h: "authorization req = Some (scheme @ CHR '' '' # rest) \<and> CHR '' '' \<notin> set scheme
        \<and> token = takeWhile (\<lambda>c. c \<noteq> CHR '' '') rest" and t: "token \<noteq> []"
    and v: "jwt_verify e token (JWT_SECRET e) = Inl err"
  then show "authenticateToken e req = Inl (403, JsonError ''Invalid token'')"
    by (simp add: authenticateToken_def truthy_def or_default_def second_piece)
next
  fix u
  assume h: "authorization req = Some (scheme @ CHR '' '' # rest) \<and> CHR '' '' \<notin> set scheme
        \<and> token = takeWhile (\<lambda>c. c \<noteq> CHR '' '') rest" and t: "token \<noteq> []"
    and v: "jwt_verify e token (JWT_SECRET e) = Inr u"
  then show "authenticateToken e req = Inr (req\<lparr>user := Some u\<rparr>)"
    by (simp add: authenticateToken_def truthy_def or_default_def second_piece)
qed

lemma example_secret: "JWT_SECRET example_env = ''jwt-secret''"
  by (simp add: JWT_SECRET_def example_env_def or_default_def)

lemma authenticate_examples:
  "authenticateToken example_env example_request =
     Inr (example_request\<lparr>user := Some \<lparr>userId = 1, email = ''alice@example.com''\<rparr>\<rparr>)"
  "authenticateToken example_env (example_request\<lparr>authorization := Some ''Bearer old.jwt''\<rparr>) =
     Inl (403, JsonError ''Invalid token'')"
  "authenticateToken example_env (example_request\<lparr>authorization := Some ''Bearer admin.jwt''\<rparr>) =
     Inr (example_request\<lparr>authorization := Some ''Bearer admin.jwt'',
            user := Some \<lparr>userId = 9, email = ''admin@gnetworkservices.in''\<rparr>\<rparr>)"
  by (simp_all add: authenticateToken_def example_request_def truthy_def or_default_def
      example_secret, simp_all add: example_env_def example_jwt_verify_def)

text \<open>
  The claim as stated fails: an expired token is answered 403, where the claim says 401.
\<close>

theorem authenticateToken_expired_is_403:
  "jwt_verify example_env ''old.jwt'' (JWT_SECRET example_env) = Inl TokenExpiredError
   \<and> authenticateToken example_env (example_request\<lparr>authorization := Some ''Bearer old.jwt''\<rparr>)
       = Inl (403, JsonError ''Invalid token'')"
  by (simp add: authenticate_examples example_secret) (simp add: example_env_def example_jwt_verify_def)

theorem authenticateToken_outcomes_witness:
  "authenticateToken example_env (example_request\<lparr>authorization := None\<rparr>)
      = Inl (401, JsonError ''No token provided'')
   \<and> authenticateToken example_env (example_request\<lparr>authorization := Some ''Bearer''\<rparr>)
      = Inl (401, JsonError ''Malformed token'')
   \<and> authenticateToken example_env (example_request\<lparr>authorization := Some ''Bearer ''\<rparr>)
      = Inl (401, JsonError ''Malformed token'')
   \<and> authenticateToken example_env (example_request\<lparr>authorization := Some ''Bearer old.jwt''\<rparr>)
      = Inl (403, JsonError ''Invalid token'')
   \<and> authenticateToken example_env example_request
      = Inr (example_request\<lparr>user := Some \<lparr>userId = 1, email = ''alice@example.com''\<rparr>\<rparr>)"
proof -
  have v1: "jwt_verify example_env ''old.jwt'' (JWT_SECRET example_env) = Inl TokenExpiredError"
    and v2: "jwt_verify example_env ''alice.jwt'' (JWT_SECRET example_env)
        = Inr \<lparr>userId = 1, email = ''alice@example.com''\<rparr>"
    by (simp_all add: example_secret) (simp_all add: example_env_def example_jwt_verify_def)
  have a: "authenticateToken example_env (example_request\<lparr>authorization := None\<rparr>)
      = Inl (401, JsonError ''No token provided'')"
    using authenticateToken_outcomes[of "example_request\<lparr>authorization := None\<rparr>" example_env]
    by (simp add: truthy_def)
  have b: "authenticateToken example_env (example_request\<lparr>authorization := Some ''Bearer''\<rparr>)
      = Inl (401, JsonError ''Malformed token'')"
    using authenticateToken_outcomes[of "example_request\<lparr>authorization := Some ''Bearer''\<rparr>" example_env "''Bearer''"]
    by simp
  have c: "authenticateToken example_env (example_request\<lparr>authorization := Some ''Bearer ''\<rparr>)
      = Inl (401, JsonError ''Malformed token'')"
    using authenticateToken_outcomes[of "example_request\<lparr>authorization := Some ''Bearer ''\<rparr>" example_env _ "''Bearer''" "[]" "[]"]
    by simp
  have d: "authenticateToken example_env (example_request\<lparr>authorization := Some ''Bearer old.jwt''\<rparr>)
      = Inl (403, JsonError ''Invalid token'')"
    using authenticateToken_outcomes[of "example_request\<lparr>authorization := Some ''Bearer old.jwt''\<rparr>" example_env _
        "''Bearer''" "''old.jwt''" "''old.jwt''"] v1
    by simp
  have e: "authenticateToken example_env example_request
      = Inr (example_request\<lparr>user := Some \<lparr>userId = 1, email = ''alice@example.com''\<rparr>\<rparr>)"
    using authenticateToken_outcomes[of example_request example_env _ "''Bearer''" "''alice.jwt''" "''alice.jwt''"] v2
    by (simp add: example_request_def)
  from a b c d e show ?thesis by blast
qed

subsection \<open>Payment verification\<close>

lemma authenticateToken_Inr:
  assumes "authenticateToken e req = Inr req'"
  shows "\<exists>u. req' = req\<lparr>user := Some u\<rparr>"
  using assms
  by (auto simp: authenticateToken_def Let_def split: if_splits sum.splits)

text \<open>
  Claim C1 (the code does not do this). On a verify call whose signature equals the HMAC
  of \<open>orderId|paymentId\<close> under the stored secret, the handler answers
  \<open>Payment verified successfully\<close> and returns the state as it was: no row of
  \<open>user_packages\<close> becomes active and no row of \<open>payments\<close> is written.
  The source has a \<open>TODO\<close> where plan.md asks for the subscription update.
\<close>

theorem payment_verify_match_changes_nothing:
  assumes "authenticateToken e req = Inr req'"
    and "razorpayInstance w = Some rzp"
    and "body_razorpay_order_id req = Some order_id" and "order_id \<noteq> []"
    and "body_razorpay_payment_id req = Some payment_id" and "payment_id \<noteq> []"
    and "body_razorpay_signature req =
           Some (hmac_sha256_hex e (key_secret rzp) (order_id @ ''|'' @ payment_id))"
    and "hmac_sha256_hex e (key_secret rzp) (order_id @ ''|'' @ payment_id) \<noteq> []"
  shows "payment_verify e w req = ((200, JsonMessage ''Payment verified successfully''), w)"
proof -
  from authenticateToken_Inr[OF assms(1)] obtain u where "req' = req\<lparr>user := Some u\<rparr>" ..
  with assms show ?thesis
    by (simp add: payment_verify_def payment_verify_handler_def truthy_def)
qed

theorem payment_verify_match_changes_nothing_witness:
  "payment_verify example_env example_world
     (example_request\<lparr>body_razorpay_order_id := Some ''order_1'',
        body_razorpay_payment_id := Some ''pay_1'',
        body_razorpay_signature := Some (hmac_sha256_hex example_env ''s3cret'' ''order_1|pay_1'')\<rparr>)
   = ((200, JsonMessage ''Payment verified successfully''), example_world)
   \<and> map up_active (user_packages example_world) = [False]
   \<and> payments example_world = []"
proof -
  let ?req = "example_request\<lparr>body_razorpay_order_id := Some ''order_1'',
        body_razorpay_payment_id := Some ''pay_1'',
        body_razorpay_signature := Some (hmac_sha256_hex example_env ''s3cret'' ''order_1|pay_1'')\<rparr>"
  have a: "authenticateToken example_env ?req =
      Inr (?req\<lparr>user := Some \<lparr>userId = 1, email = ''alice@example.com''\<rparr>\<rparr>)"
    by (simp add: authenticateToken_def example_request_def truthy_def or_default_def
        JWT_SECRET_def, simp add: example_env_def example_jwt_verify_def)
  have b: "razorpayInstance example_world = Some \<lparr>key_id = ''rzp_test_1'', key_secret = ''s3cret''\<rparr>"
    by (simp add: example_world_def)
  have c: "hmac_sha256_hex example_env ''s3cret'' ''order_1|pay_1'' \<noteq> []"
    by (simp add: example_env_def)
  have "payment_verify example_env example_world ?req
      = ((200, JsonMessage ''Payment verified successfully''), example_world)"
    using payment_verify_match_changes_nothing[OF a b, of "''order_1''" "''pay_1''"] c by simp
  moreover have "map up_active (user_packages example_world) = [False]"
    and "payments example_world = []"
    by (simp_all add: example_world_def)
  ultimately show ?thesis by blast
qed

lemma payment_verify_world: "snd (payment_verify e w req) = w"
  by (simp add: payment_verify_def payment_verify_handler_def Let_def
      split: sum.splits option.splits)

text \<open>
  Claim C4, as amended. A call of \<open>POST /api/payment/verify\<close> that carries an
  order id, a payment id and a signature, made while the gateway client is configured,
  whose signature is not the HMAC of \<open>orderId|paymentId\<close> under the stored
  secret, leaves the state as it was (no subscription is activated) and is never answered
  as verified. When it also passes \<open>authenticateToken\<close> and none of the three
  fields is empty, the answer is 400 \<open>Invalid payment signature\<close>; otherwise an
  earlier guard answers (401 or 403 from the bearer gate, or 400
  \<open>Payment details are required\<close>).
\<close>

theorem payment_verify_mismatch:
  "(razorpayInstance w = Some rzp
      \<and> body_razorpay_order_id req = Some order_id
      \<and> body_razorpay_payment_id req = Some payment_id
      \<and> body_razorpay_signature req = Some signature
      \<and> signature \<noteq> hmac_sha256_hex e (key_secret rzp) (order_id @ ''|'' @ payment_id)
      \<longrightarrow> snd (payment_verify e w req) = w
        \<and> fst (payment_verify e w req) \<noteq> (200, JsonMessage ''Payment verified successfully''))
   \<and> (authenticateToken e req = Inr req' \<and> razorpayInstance w = Some rzp
      \<and> body_razorpay_order_id req = Some order_id \<and> order_id \<noteq> []
      \<and> body_razorpay_payment_id req = Some payment_id \<and> payment_id \<noteq> []
      \<and> body_razorpay_signature req = Some signature \<and> signature \<noteq> []
      \<and> signature \<noteq> hmac_sha256_hex e (key_secret rzp) (order_id @ ''|'' @ payment_id)
      \<longrightarrow> fst (payment_verify e w req) = (400, JsonError ''Invalid payment signature''))"
proof (intro conjI impI)
  assume h: "razorpayInstance w = Some rzp
      \<and> body_razorpay_order_id req = Some order_id
      \<and> body_razorpay_payment_id req = Some payment_id
      \<and> body_razorpay_signature req = Some signature
      \<and> signature \<noteq> hmac_sha256_hex e (key_secret rzp) (order_id @ ''|'' @ payment_id)"
  show "snd (payment_verify e w req) = w" by (rule payment_verify_world)
  show "fst (payment_verify e w req) \<noteq> (200, JsonMessage ''Payment verified successfully'')"
  proof (cases "authenticateToken e req")
    case (Inl r)
    then have "fst (payment_verify e w req) = r" by (simp add: payment_verify_def)
    moreover from Inl have "fst r \<noteq> 200"
      by (auto simp: authenticateToken_def Let_def split: if_splits sum.splits)
    ultimately show ?thesis by auto
  next
    case (Inr r)
    then obtain u where "r = req\<lparr>user := Some u\<rparr>" using authenticateToken_Inr by blast
    with Inr h show ?thesis
      by (auto simp: payment_verify_def payment_verify_handler_def)
  qed
next
  assume h: "authenticateToken e req = Inr req' \<and> razorpayInstance w = Some rzp
      \<and> body_razorpay_order_id req = Some order_id \<and> order_id \<noteq> []
      \<and> body_razorpay_payment_id req = Some payment_id \<and> payment_id \<noteq> []
      \<and> body_razorpay_signature req = Some signature \<and> signature \<noteq> []
      \<and> signature \<noteq> hmac_sha256_hex e (key_secret rzp) (order_id @ ''|'' @ payment_id)"
  then obtain u where "req' = req\<lparr>user := Some u\<rparr>" using authenticateToken_Inr by blast
  with h show "fst (payment_verify e w req) = (400, JsonError ''Invalid payment signature'')"
    by (auto simp: payment_verify_def payment_verify_handler_def truthy_def)
qed

text \<open>
  The claim as stated fails. With an empty order id the guard on the request fields
  answers first, \<open>Payment details are required\<close>, though the signature differs
  from the HMAC; and a call without an \<open>Authorization\<close> header is answered by the
  bearer gate, whatever its signature.
\<close>

theorem payment_verify_empty_order_id:
  "''deadbeef'' \<noteq> hmac_sha256_hex example_env ''s3cret'' ([] @ ''|'' @ ''pay_1'')
   \<and> fst (payment_verify example_env example_world
        (example_request\<lparr>body_razorpay_order_id := Some [],
           body_razorpay_payment_id := Some ''pay_1'',
           body_razorpay_signature := Some ''deadbeef''\<rparr>))
      = (400, JsonError ''Payment details are required'')
   \<and> ''deadbeef'' \<noteq> hmac_sha256_hex example_env ''s3cret'' (''order_1'' @ ''|'' @ ''pay_1'')
   \<and> fst (payment_verify example_env example_world
        (example_request\<lparr>authorization := None,
           body_razorpay_order_id := Some ''order_1'',
           body_razorpay_payment_id := Some ''pay_1'',
           body_razorpay_signature := Some ''deadbeef''\<rparr>))
      = (401, JsonError ''No token provided'')"
proof -
  let ?req = "example_request\<lparr>body_razorpay_order_id := Some [],
         body_razorpay_payment_id := Some ''pay_1'',
         body_razorpay_signature := Some ''deadbeef''\<rparr>"
  have a: "authenticateToken example_env ?req =
      Inr (?req\<lparr>user := Some \<lparr>userId = 1, email = ''alice@example.com''\<rparr>\<rparr>)"
    by (simp add: authenticateToken_def example_request_def truthy_def or_default_def
        JWT_SECRET_def, simp add: example_env_def example_jwt_verify_def)
  have "fst (payment_verify example_env example_world ?req)
      = (400, JsonError ''Payment details are required'')"
    by (simp add: payment_verify_def a payment_verify_handler_def example_world_def truthy_def)
  moreover have "''deadbeef'' \<noteq> hmac_sha256_hex example_env ''s3cret'' ([] @ ''|'' @ ''pay_1'')"
    and "''deadbeef'' \<noteq> hmac_sha256_hex example_env ''s3cret'' (''order_1'' @ ''|'' @ ''pay_1'')"
    by (simp_all add: example_env_def)
  moreover have "fst (payment_verify example_env example_world
        (example_request\<lparr>authorization := None,
           body_razorpay_order_id := Some ''order_1'',
           body_razorpay_payment_id := Some ''pay_1'',
           body_razorpay_signature := Some ''deadbeef''\<rparr>))
      = (401, JsonError ''No token provided'')"
    by (simp add: payment_verify_def authenticateToken_def truthy_def)
  ultimately show ?thesis by blast
qed

theorem payment_verify_mismatch_witness:
  "snd (payment_verify example_env example_world
        (example_request\<lparr>body_razorpay_order_id := Some ''order_1'',
           body_razorpay_payment_id := Some ''pay_1'',
           body_razorpay_signature := Some ''deadbeef''\<rparr>)) = example_world
   \<and> fst (payment_verify example_env example_world
        (example_request\<lparr>body_razorpay_order_id := Some ''order_1'',
           body_razorpay_payment_id := Some ''pay_1'',
           body_razorpay_signature := Some ''deadbeef''\<rparr>))
      = (400, JsonError ''Invalid payment signature'')"
proof -
  let ?req = "example_request\<lparr>body_razorpay_order_id := Some ''order_1'',
         body_razorpay_payment_id := Some ''pay_1'',
         body_razorpay_signature := Some ''deadbeef''\<rparr>"
  have a: "authenticateToken example_env ?req =
      Inr (?req\<lparr>user := Some \<lparr>userId = 1, email = ''alice@example.com''\<rparr>\<rparr>)"
    by (simp add: authenticateToken_def example_request_def truthy_def or_default_def
        JWT_SECRET_def, simp add: example_env_def example_jwt_verify_def)
  have b: "razorpayInstance example_world = Some \<lparr>key_id = ''rzp_test_1'', key_secret = ''s3cret''\<rparr>"
    by (simp add: example_world_def)
  have c: "''deadbeef'' \<noteq> hmac_sha256_hex example_env ''s3cret'' (''order_1'' @ ''|'' @ ''pay_1'')"
    by (simp add: example_env_def)
  from payment_verify_mismatch[of example_world
      "\<lparr>key_id = ''rzp_test_1'', key_secret = ''s3cret''\<rparr>" ?req "''order_1''" "''pay_1''" "''deadbeef''"
      example_env]
    a b c show ?thesis by simp
qed

subsection \<open>Login\<close>

text \<open>
  Where \<open>bcrypt.compare\<close> resolves to \<open>false\<close>, the wrong password of a known
  email gets the response of an unknown email: 401 with \<open>Invalid credentials\<close>.
\<close>

lemma login_mismatch_like_unknown:
  assumes "store_up wA" and "store_up wB"
    and "body_email reqA = Some emailA" and "emailA \<noteq> []"
    and "body_password reqA = Some passwordA" and "truthy_value passwordA"
    and "body_email reqB = Some emailB" and "emailB \<noteq> []"
    and "body_password reqB = Some passwordB" and "truthy_value passwordB"
    and "filter (\<lambda>u. u_email u = emailA) (users wA) = []"
    and "filter (\<lambda>u. u_email u = emailB) (users wB) = usr # others"
    and "bcrypt_compare e passwordB (u_password_hash usr) = Inr False"
  shows "login e wA reqA = login e wB reqB
       \<and> login e wB reqB = (401, JsonError ''Invalid credentials'')"
  using assms by (simp add: login_def truthy_def)

text \<open>
  Claim C6 (the code does not do this). The handler compares the password without
  looking at its type. For a password on which \<open>bcrypt.compare\<close> rejects, a number
  for one, a login for an email no user has is answered 401 \<open>Invalid credentials\<close>
  before the comparison, and a login for an email some user has is answered 500
  \<open>Internal server error\<close> by the \<open>catch\<close>: the two responses differ, and tell the
  caller that the email exists.
\<close>

theorem login_compare_rejection_reveals_user:
  assumes "store_up wA" and "store_up wB"
    and "body_email reqA = Some emailA" and "emailA \<noteq> []"
    and "body_password reqA = Some passwordA" and "truthy_value passwordA"
    and "body_email reqB = Some emailB" and "emailB \<noteq> []"
    and "body_password reqB = Some passwordB" and "truthy_value passwordB"
    and "filter (\<lambda>u. u_email u = emailA) (users wA) = []"
    and "filter (\<lambda>u. u_email u = emailB) (users wB) = usr # others"
    and "bcrypt_compare e passwordB (u_password_hash usr) = Inl err"
  shows "login e wA reqA = (401, JsonError ''Invalid credentials'')
       \<and> login e wB reqB = (500, JsonError ''Internal server error'')"
  using assms by (simp add: login_def truthy_def internal_server_error_def)

lemma example_users:
  "store_up example_world"
  "filter (\<lambda>u. u_email u = ''bob@example.com'') (users example_world) = []"
  "filter (\<lambda>u. u_email u = ''alice@example.com'') (users example_world) =
      \<lparr>u_id = 1, u_name = ''Alice'', u_email = ''alice@example.com'',
        u_password_hash = ''$2b$10$hash-of-pw123''\<rparr> # []"
  by (simp_all add: example_world_def)

lemma login_examples:
  "login example_env example_world
      (example_request\<lparr>body_email := Some ''alice@example.com'',
         body_password := Some (JsString ''pw123'')\<rparr>)
     = (200, JsonToken ''jwt:alice@example.com'')"
  "login example_env example_world
      (example_request\<lparr>body_email := Some ''alice@example.com'',
         body_password := Some (JsString ''guess'')\<rparr>)
     = (401, JsonError ''Invalid credentials'')"
  "login example_env example_world
      (example_request\<lparr>body_email := Some ''bob@example.com'',
         body_password := Some (JsString ''guess'')\<rparr>)
     = (401, JsonError ''Invalid credentials'')"
  by (simp_all add: login_def truthy_def example_users) (simp_all add: example_env_def)

theorem login_compare_rejection_reveals_user_witness:
  "login example_env example_world
      (example_request\<lparr>body_email := Some ''bob@example.com'',
         body_password := Some (JsNumber 12345)\<rparr>)
     = (401, JsonError ''Invalid credentials'')
   \<and> login example_env example_world
      (example_request\<lparr>body_email := Some ''alice@example.com'',
         body_password := Some (JsNumber 12345)\<rparr>)
     = (500, JsonError ''Internal server error'')
   \<and> login example_env example_world
      (example_request\<lparr>body_email := Some ''bob@example.com'',
         body_password := Some (JsNumber 12345)\<rparr>)
     \<noteq> login example_env example_world
      (example_request\<lparr>body_email := Some ''alice@example.com'',
         body_password := Some (JsNumber 12345)\<rparr>)"
proof -
  have c: "bcrypt_compare example_env (JsNumber 12345)
      (u_password_hash \<lparr>u_id = 1, u_name = ''Alice'', u_email = ''alice@example.com'',
        u_password_hash = ''$2b$10$hash-of-pw123''\<rparr>) = Inl BcryptError"
    by (simp add: example_env_def)
  from login_compare_rejection_reveals_user
      [OF example_users(1) example_users(1) _ _ _ _ _ _ _ _ example_users(2) example_users(3) c,
       of "example_request\<lparr>body_email := Some ''bob@example.com'',
             body_password := Some (JsNumber 12345)\<rparr>"
          "JsNumber 12345"
          "example_request\<lparr>body_email := Some ''alice@example.com'',
             body_password := Some (JsNumber 12345)\<rparr>"]
  show ?thesis by simp
qed

subsection \<open>Playback\<close>

text \<open>
  Claim C7, as amended. When the store answers, a code that no row of \<open>links\<close> has
  and a code whose rows are all expired get one and the same response, 404
  \<open>Link not found or expired\<close>, which carries no media; the handler does not tell
  the two apart. On a hit the response is the list of the media rows whose group and
  user are those of the first unexpired row with the code.
\<close>

theorem link_content_outcomes:
  assumes "store_up w"
  shows "(filter (\<lambda>l. l_link_code l = params_code req) (links w) = [] \<longrightarrow>
            link_content db_now w req = (404, JsonError ''Link not found or expired''))
       \<and> (filter (\<lambda>l. l_link_code l = params_code req) (links w) \<noteq> []
          \<and> list_all (\<lambda>l. l_expires_at l \<le> db_now)
               (filter (\<lambda>l. l_link_code l = params_code req) (links w)) \<longrightarrow>
            link_content db_now w req = (404, JsonError ''Link not found or expired''))
       \<and> (filter (\<lambda>l. l_link_code l = params_code req \<and> db_now < l_expires_at l) (links w)
            = link # others \<longrightarrow>
            link_content db_now w req =
              (200, JsonMedia (filter (\<lambda>m. m_group_id m = Some (l_group_id link)
                                         \<and> m_user_id m = l_user_id link) (media w))))"
proof (intro conjI impI)
  assume "filter (\<lambda>l. l_link_code l = params_code req) (links w) = []"
  then have "filter (\<lambda>l. l_link_code l = params_code req \<and> db_now < l_expires_at l) (links w) = []"
    by (simp add: filter_empty_conv)
  with assms show "link_content db_now w req = (404, JsonError ''Link not found or expired'')"
    by (simp add: link_content_def)
next
  assume "filter (\<lambda>l. l_link_code l = params_code req) (links w) \<noteq> []
          \<and> list_all (\<lambda>l. l_expires_at l \<le> db_now)
               (filter (\<lambda>l. l_link_code l = params_code req) (links w))"
  then have "filter (\<lambda>l. l_link_code l = params_code req \<and> db_now < l_expires_at l) (links w) = []"
    by (auto simp: filter_empty_conv list_all_iff)
  with assms show "link_content db_now w req = (404, JsonError ''Link not found or expired'')"
    by (simp add: link_content_def)
next
  assume "filter (\<lambda>l. l_link_code l = params_code req \<and> db_now < l_expires_at l) (links w)
            = link # others"
  with assms show "link_content db_now w req =
              (200, JsonMedia (filter (\<lambda>m. m_group_id m = Some (l_group_id link)
                                         \<and> m_user_id m = l_user_id link) (media w)))"
    by (simp add: link_content_def)
qed

text \<open>
  The claim as stated fails: the expired code \<open>5500\<close> and the absent code
  \<open>9999\<close> get equal responses, where the claim says they are distinct.
\<close>

theorem link_content_expired_like_absent:
  "filter (\<lambda>l. l_link_code l = ''9999'') (links example_world) = []
   \<and> map l_expires_at (filter (\<lambda>l. l_link_code l = ''5500'') (links example_world)) = [2592000000]
   \<and> link_content 2592000001 example_world (example_request\<lparr>params_code := ''5500''\<rparr>)
     = link_content 2592000001 example_world (example_request\<lparr>params_code := ''9999''\<rparr>)"
  by (simp add: link_content_def example_world_def)

theorem link_content_outcomes_witness:
  "store_up example_world
   \<and> link_content 2592000001 example_world (example_request\<lparr>params_code := ''9999''\<rparr>)
       = (404, JsonError ''Link not found or expired'')
   \<and> link_content 2592000001 example_world (example_request\<lparr>params_code := ''5500''\<rparr>)
       = (404, JsonError ''Link not found or expired'')
   \<and> link_content 1000 example_world (example_request\<lparr>params_code := ''5500''\<rparr>)
       = (200, JsonMedia [\<lparr>m_user_id = 1, m_type = ''image'', m_file_path = ''1-a.png'',
                           m_group_id = Some 7\<rparr>])"
proof -
  have up: "store_up example_world" by (simp add: example_world_def)
  have a: "link_content 2592000001 example_world (example_request\<lparr>params_code := ''9999''\<rparr>)
       = (404, JsonError ''Link not found or expired'')"
    using link_content_outcomes[OF up, of "example_request\<lparr>params_code := ''9999''\<rparr>" 2592000001]
    by (simp add: example_world_def)
  have b: "link_content 2592000001 example_world (example_request\<lparr>params_code := ''5500''\<rparr>)
       = (404, JsonError ''Link not found or expired'')"
    using link_content_outcomes[OF up, of "example_request\<lparr>params_code := ''5500''\<rparr>" 2592000001]
    by (simp add: example_world_def)
  have c: "link_content 1000 example_world (example_request\<lparr>params_code := ''5500''\<rparr>)
       = (200, JsonMedia [\<lparr>m_user_id = 1, m_type = ''image'', m_file_path = ''1-a.png'',
                           m_group_id = Some 7\<rparr>])"
    using link_content_outcomes[OF up, of "example_request\<lparr>params_code := ''5500''\<rparr>" 1000
        "\<lparr>l_user_id = 1, l_link_code = ''5500'', l_group_id = 7,
                l_created_at = 0, l_expires_at = 2592000000\<rparr>" "[]"]
    by (simp add: example_world_def)
  from up a b c show ?thesis by blast
qed

subsection \<open>The admin gate\<close>

lemma admin_routes_forbidden:
  assumes "authenticateToken e req = Inr req'" and "user req' = Some u"
    and "email u \<noteq> ''admin@gnetworkservices.in''"
  shows "get_payment_settings e w req = ((403, JsonError ''Forbidden: Super admin only''), w)"
    and "update_payment_settings e db_now w req =
           ((403, JsonError ''Forbidden: Super admin only''), w)"
  using assms
  by (simp_all add: get_payment_settings_def update_payment_settings_def verifySuperAdmin_def)

text \<open>
  Claim C8 (the code does not do this). \<open>POST /api/payment/offline\<close> is registered
  with \<open>authenticateToken\<close> alone, so every request with a valid token, the
  administrator's or not, gets status 200 with the placeholder message, where the two
  payment-settings routes answer 403 to a token without the administrator's email
  (\<open>admin_routes_forbidden\<close>).
\<close>

theorem payment_offline_open_to_any_token:
  assumes "authenticateToken e req = Inr req'"
  shows "payment_offline e w req =
           ((200, JsonMessage ''Offline payment recorded (placeholder)''), w)"
  using assms by (simp add: payment_offline_def payment_offline_handler_def)

theorem payment_offline_open_to_any_token_witness:
  "verifySuperAdmin (example_request\<lparr>user := Some \<lparr>userId = 1, email = ''alice@example.com''\<rparr>\<rparr>)
     = Inl (403, JsonError ''Forbidden: Super admin only'')
   \<and> get_payment_settings example_env example_world example_request
     = ((403, JsonError ''Forbidden: Super admin only''), example_world)
   \<and> payment_offline example_env example_world example_request
     = ((200, JsonMessage ''Offline payment recorded (placeholder)''), example_world)"
proof -
  have a: "verifySuperAdmin (example_request\<lparr>user := Some \<lparr>userId = 1, email = ''alice@example.com''\<rparr>\<rparr>)
     = Inl (403, JsonError ''Forbidden: Super admin only'')"
    by (simp add: verifySuperAdmin_def)
  have b: "get_payment_settings example_env example_world example_request
     = ((403, JsonError ''Forbidden: Super admin only''), example_world)"
    using admin_routes_forbidden(1)[OF authenticate_examples(1)] by simp
  from payment_offline_open_to_any_token[OF authenticate_examples(1)] a b show ?thesis by blast
qed

subsection \<open>Media upload\<close>

text \<open>
  Claim C9. For an upload that passes \<open>authenticateToken\<close> while the store answers:
  with no files the answer is 400 \<open>No files uploaded\<close> and nothing changes; with
  \<open>N \<ge> 1\<close> files exactly \<open>N\<close> rows are added to \<open>media\<close>, each with the
  caller's user id, and exactly one \<open>mediaUpdated\<close> event is emitted, to the room
  \<open>user_\<close> followed by the user id of the caller.
\<close>

theorem media_upload_rows_and_event:
  assumes "authenticateToken e req = Inr req'" and "user req' = Some u" and "store_up w"
  shows "(files req = None \<or> files req = Some [] \<longrightarrow>
            media_upload e w req = ((400, JsonError ''No files uploaded''), w))
       \<and> (files req = Some fs \<and> fs \<noteq> [] \<longrightarrow>
            (\<exists>rows. media_upload e w req =
                ((200, JsonMessage ''Files uploaded successfully''),
                 w\<lparr>media := media w @ rows,
                   emitted := emitted w @
                     [(''user_'' @ toString (int (userId u)), ''mediaUpdated'', body_groupId req)]\<rparr>)
              \<and> length rows = length fs
              \<and> list_all (\<lambda>m. m_user_id m = userId u) rows))"
proof -
  from authenticateToken_Inr[OF assms(1)] assms(2) have req': "req' = req\<lparr>user := Some u\<rparr>"
    by auto
  show ?thesis
  proof (intro conjI impI)
    assume "files req = None \<or> files req = Some []"
    then show "media_upload e w req = ((400, JsonError ''No files uploaded''), w)"
      using assms(1) req' by (auto simp: media_upload_def media_upload_handler_def)
  next
    assume fs: "files req = Some fs \<and> fs \<noteq> []"
    let ?rows = "map (\<lambda>f. \<lparr>m_user_id = userId u,
                     m_type = or_default (at_index (str_split CHR ''/'' (mimetype f)) 0) [],
                     m_file_path = filename f,
                     m_group_id = body_groupId req\<rparr>) fs"
    have "media_upload e w req =
                ((200, JsonMessage ''Files uploaded successfully''),
                 w\<lparr>media := media w @ ?rows,
                   emitted := emitted w @
                     [(''user_'' @ toString (int (userId u)), ''mediaUpdated'', body_groupId req)]\<rparr>)"
      using assms(1,3) req' fs by (simp add: media_upload_def media_upload_handler_def Let_def)
    moreover have "length ?rows = length fs" by simp
    moreover have "list_all (\<lambda>m. m_user_id m = userId u) ?rows" by (simp add: list_all_iff)
    ultimately show "\<exists>rows. media_upload e w req =
                ((200, JsonMessage ''Files uploaded successfully''),
                 w\<lparr>media := media w @ rows,
                   emitted := emitted w @
                     [(''user_'' @ toString (int (userId u)), ''mediaUpdated'', body_groupId req)]\<rparr>)
              \<and> length rows = length fs
              \<and> list_all (\<lambda>m. m_user_id m = userId u) rows"
      by blast
  qed
qed

theorem media_upload_rows_and_event_witness:
  "media_upload example_env example_world (example_request\<lparr>files := Some []\<rparr>)
     = ((400, JsonError ''No files uploaded''), example_world)
   \<and> (\<exists>rows. media_upload example_env example_world
         (example_request\<lparr>files := Some [\<lparr>mimetype = ''image/png'', filename = ''17-a.png''\<rparr>,
                                         \<lparr>mimetype = ''video/mp4'', filename = ''17-b.mp4''\<rparr>],
                           body_groupId := Some 7\<rparr>)
       = ((200, JsonMessage ''Files uploaded successfully''),
          example_world\<lparr>media := media example_world @ rows,
            emitted := emitted example_world @ [(''user_1'', ''mediaUpdated'', Some 7)]\<rparr>)
       \<and> length rows = 2 \<and> list_all (\<lambda>m. m_user_id m = 1) rows)"
proof -
  let ?r0 = "example_request\<lparr>files := Some []\<rparr>"
  let ?r2 = "example_request\<lparr>files := Some [\<lparr>mimetype = ''image/png'', filename = ''17-a.png''\<rparr>,
                                         \<lparr>mimetype = ''video/mp4'', filename = ''17-b.mp4''\<rparr>],
                           body_groupId := Some 7\<rparr>"
  have up: "store_up example_world" by (simp add: example_world_def)
  have a0: "authenticateToken example_env ?r0 =
      Inr (?r0\<lparr>user := Some \<lparr>userId = 1, email = ''alice@example.com''\<rparr>\<rparr>)"
    by (simp add: authenticateToken_def example_request_def truthy_def or_default_def
        JWT_SECRET_def, simp add: example_env_def example_jwt_verify_def)
  have a2: "authenticateToken example_env ?r2 =
      Inr (?r2\<lparr>user := Some \<lparr>userId = 1, email = ''alice@example.com''\<rparr>\<rparr>)"
    by (simp add: authenticateToken_def example_request_def truthy_def or_default_def
        JWT_SECRET_def, simp add: example_env_def example_jwt_verify_def)
  have t: "toString (int 1) = ''1''"
    by (simp add: toString_def nat_digits.simps digit_chars_def)
  have "media_upload example_env example_world ?r0
     = ((400, JsonError ''No files uploaded''), example_world)"
    using media_upload_rows_and_event[OF a0 _ up, of "\<lparr>userId = 1, email = ''alice@example.com''\<rparr>"] by simp
  moreover have "\<exists>rows. media_upload example_env example_world ?r2
       = ((200, JsonMessage ''Files uploaded successfully''),
          example_world\<lparr>media := media example_world @ rows,
            emitted := emitted example_world @ [(''user_1'', ''mediaUpdated'', Some 7)]\<rparr>)
       \<and> length rows = 2 \<and> list_all (\<lambda>m. m_user_id m = 1) rows"
    using media_upload_rows_and_event[OF a2 _ up, of "\<lparr>userId = 1, email = ''alice@example.com''\<rparr>"
        "[\<lparr>mimetype = ''image/png'', filename = ''17-a.png''\<rparr>,
          \<lparr>mimetype = ''video/mp4'', filename = ''17-b.mp4''\<rparr>]"] t
    by (simp add: numeral_2_eq_2)
  ultimately show ?thesis by blast
qed

subsection \<open>Link generation\<close>

text \<open>
  Claim C10. Whenever \<open>POST /api/link/generate\<close> answers, either it answers 200 and
  has added exactly one row to \<open>links\<close>, whose \<open>expires_at\<close> is the
  \<open>Date.now()\<close> of the request plus 2,592,000,000 milliseconds (30 days), or it
  answers another status and has added none. Nothing of the request enters the expiry.
\<close>

theorem link_generate_expiry:
  assumes "link_generate e random now db_now w req = Some (res, w')"
  shows "(fst res = 200 \<and> (\<exists>l. links w' = links w @ [l] \<and> l_expires_at l = now + 2592000000))
       \<or> (fst res \<noteq> 200 \<and> links w' = links w)"
proof (cases "authenticateToken e req")
  case (Inl r)
  with assms have "res = r" and "w' = w" by (simp_all add: link_generate_def)
  moreover from Inl have "fst r \<noteq> 200"
    by (auto simp: authenticateToken_def Let_def split: if_splits sum.splits)
  ultimately show ?thesis by simp
next
  case (Inr req')
  with assms have h: "link_generate_handler e random now db_now w req' = Some (res, w')"
    by (simp add: link_generate_def)
  then show ?thesis
    by (auto simp: link_generate_handler_def Let_def internal_server_error_def
        split: option.splits if_splits sum.splits)
qed

theorem link_generate_expiry_witness:
  "link_generate example_env example_random 1700000000000 1700000000123 example_world
      (example_request\<lparr>body_groupId := Some 7\<rparr>)
   = Some ((200, JsonLink ''http://localhost:4000/3250''),
           example_world\<lparr>links := links example_world @
             [\<lparr>l_user_id = 1, l_link_code = ''3250'', l_group_id = 7,
               l_created_at = 1700000000123, l_expires_at = 1702592000000\<rparr>]\<rparr>)
   \<and> (\<exists>l. links example_world @
             [\<lparr>l_user_id = 1, l_link_code = ''3250'', l_group_id = 7,
               l_created_at = 1700000000123, l_expires_at = 1702592000000\<rparr>]
          = links example_world @ [l] \<and> l_expires_at l = 1700000000000 + 2592000000)"
proof -
  let ?r = "example_request\<lparr>body_groupId := Some 7\<rparr>"
  have a: "authenticateToken example_env ?r =
      Inr (?r\<lparr>user := Some \<lparr>userId = 1, email = ''alice@example.com''\<rparr>\<rparr>)"
    by (simp add: authenticateToken_def example_request_def truthy_def or_default_def
        JWT_SECRET_def, simp add: example_env_def example_jwt_verify_def)
  have d: "env_DOMAIN example_env = None" by (simp add: example_env_def)
  have run: "link_generate example_env example_random 1700000000000 1700000000123 example_world ?r
   = Some ((200, JsonLink ''http://localhost:4000/3250''),
           example_world\<lparr>links := links example_world @
             [\<lparr>l_user_id = 1, l_link_code = ''3250'', l_group_id = 7,
               l_created_at = 1700000000123, l_expires_at = 1702592000000\<rparr>]\<rparr>)"
    by (simp add: link_generate_def a link_generate_handler_def truthy_num_def example_run
        or_default_def d)
  from link_generate_expiry[OF run] run show ?thesis by simp
qed

end
